theory Spec2Isabelle
  imports Main
begin

section \<open>The HTTP client of pincer/core/http.py\<close>

text \<open>
  The development embeds \<^verbatim>\<open>HTTPClient.__send\<close> and
  \<^verbatim>\<open>HTTPClient.__handle_response\<close> together with the seven verb methods that
  call them. Coroutines become state-passing functions on a world that holds the rate
  limiter and a trace of the calls made to the outside (gate waits, network calls,
  bucket records, sleeps). Of the log statements only the one that reads the body of
  the response can change the result; the others are left out.
\<close>

subsection \<open>Values\<close>

text \<open>
  Python values that travel through the client: what \<^verbatim>\<open>res.json()\<close> returns and
  what is handed to \<^verbatim>\<open>asyncio.sleep\<close>. \<open>JNull\<close> is Python's \<^verbatim>\<open>None\<close>. A float
  is finite (kept as mantissa and binary exponent, since the client never computes with
  one), infinite or not a number; \<^verbatim>\<open>json.loads\<close> produces all of them.
\<close>

datatype pyfloat = Finite int int | PosInf | NegInf | NaN

datatype json =
    JNull
  | JBool bool
  | JInt int
  | JFloat pyfloat
  | JStr string
  | JList "json list"
  | JDict "string \<Rightarrow> json option"

type_synonym 'v dict = "string \<Rightarrow> 'v option"

text \<open>The bound methods of the session that the verbs pass as \<^verbatim>\<open>method\<close>.\<close>

datatype meth = DELETE | GET | HEAD | OPTIONS | PATCH | POST | PUT

text \<open>\<^verbatim>\<open>data: Optional[Union[Dict, str, Payload]]\<close>; a payload is opaque.\<close>

datatype body = DataDict "json dict" | DataStr string | DataPayload string

record response =
  status :: int
  reason :: string
  headers :: "string dict"
  body_text :: "string option"
  body_json :: "json option"

text \<open>
  \<open>body_text\<close> is the value of \<^verbatim>\<open>await res.text()\<close> and \<open>body_json\<close> that of
  \<^verbatim>\<open>await res.json()\<close>, each \<open>None\<close> when the call raises. A network call either
  yields a response or fails in the transport.
\<close>

datatype reply = Reply response | TransportFailure

record request =
  req_method :: meth
  req_url :: string
  req_data :: "body option"
  req_headers :: "string dict"
  req_params :: "string dict option"

subsection \<open>Errors\<close>

text \<open>The exception classes imported from \<^verbatim>\<open>pincer.exceptions\<close>.\<close>

datatype http_error =
    NotModifiedError
  | BadRequestError
  | UnauthorizedError
  | ForbiddenError
  | NotFoundError
  | MethodNotAllowedError
  | RateLimitError
  | ServerError

text \<open>
  A raised exception: one of the classes above with its message, or an exception of
  the interpreter or of aiohttp that the client does not catch (\<open>UnicodeDecodeError\<close>
  and \<open>JSONError\<close> stand for whatever \<^verbatim>\<open>res.text()\<close> and \<^verbatim>\<open>res.json()\<close> raise on a
  body they cannot decode).
\<close>

datatype error =
    HTTPError http_error string
  | ClientConnectionError
  | UnicodeDecodeError
  | JSONError
  | AttributeError
  | TypeError
  | OverflowError

type_synonym result = "error + json"

subsection \<open>Effects\<close>

datatype event =
    Wait string meth
  | Call request
  | Save string meth "string dict"
  | Sleep json

text \<open>
  An event is a call made to the outside, recorded when it is made. The world: the
  state of the rate limiter (of any type \<open>'rl\<close>), the events so far in order, and the
  number of network calls made.
\<close>

record 'rl world =
  limiter :: 'rl
  trace :: "event list"
  network :: nat

text \<open>
  What awaiting \<^verbatim>\<open>asyncio.sleep(delay)\<close> comes to: the sleep completes, it raises, or
  it never returns.
\<close>

datatype sleep_result = Completed | Raised error | Suspended

text \<open>
  What the client is given from outside: the JSON serialiser, the event loop's
  \<^verbatim>\<open>sleep\<close>, the two operations of \<^verbatim>\<open>pincer.core.ratelimiter.RateLimiter\<close> (which is
  not among the sources, so they are arbitrary state transformers), and the server,
  which answers the \<open>n\<close>-th network call.
\<close>

record 'rl env =
  dumps :: "json dict \<Rightarrow> string"
  asyncio_sleep :: "json \<Rightarrow> sleep_result"
  wait_until_not_ratelimited :: "string \<Rightarrow> meth \<Rightarrow> 'rl \<Rightarrow> 'rl"
  save_response_bucket :: "string \<Rightarrow> meth \<Rightarrow> string dict \<Rightarrow> 'rl \<Rightarrow> 'rl"
  transport :: "nat \<Rightarrow> request \<Rightarrow> reply"

record client =
  url :: string
  max_ttl :: int

subsection \<open>Helpers\<close>

text \<open>The table \<^verbatim>\<open>self.__http_exceptions\<close> built in \<^verbatim>\<open>__init__\<close>.\<close>

definition http_exceptions :: "int \<Rightarrow> http_error option" where
  "http_exceptions = map_of
     [(304, NotModifiedError),
      (400, BadRequestError),
      (401, UnauthorizedError),
      (403, ForbiddenError),
      (404, NotFoundError),
      (405, MethodNotAllowedError),
      (429, RateLimitError)]"

text \<open>
  \<^verbatim>\<open>ClientResponse.ok\<close> of aiohttp: true if and only if the status is below 400.
\<close>

definition ok :: "response \<Rightarrow> bool" where
  "ok res = (status res < 400)"

text \<open>\<^verbatim>\<open>_ttl or self.max_ttl\<close>: \<^verbatim>\<open>None\<close> and \<^verbatim>\<open>0\<close> are both falsy.\<close>

definition ttl_or :: "int option \<Rightarrow> int \<Rightarrow> int" where
  "ttl_or t m = (case t of None \<Rightarrow> m | Some k \<Rightarrow> if k = 0 then m else k)"

text \<open>
  Modelled from the spec: \<^verbatim>\<open>pincer.utils.conversion.remove_none\<close> is not among the
  sources. It strips the absent (\<^verbatim>\<open>None\<close>) values of a dictionary, and given
  \<^verbatim>\<open>None\<close> instead of a dictionary it returns \<^verbatim>\<open>None\<close>.
\<close>

definition remove_none :: "'v option dict option \<Rightarrow> 'v dict option" where
  "remove_none obj =
     map_option (\<lambda>d k. case d k of None \<Rightarrow> None | Some None \<Rightarrow> None | Some (Some v) \<Rightarrow> Some v) obj"

text \<open>
  \<^verbatim>\<open>{"Content-Type": content_type, **(remove_none(headers) or {})}\<close>: the entries of the
  unpacked dictionary are written after the first one, so they replace it on a clash.
\<close>

definition merged_headers :: "string \<Rightarrow> string option dict option \<Rightarrow> string dict" where
  "merged_headers content_type hdrs =
     [''Content-Type'' \<mapsto> content_type] ++
       (case remove_none hdrs of None \<Rightarrow> Map.empty | Some d \<Rightarrow> d)"

text \<open>\<^verbatim>\<open>if isinstance(data, dict): data = dumps(data)\<close>\<close>

definition serialize :: "'rl env \<Rightarrow> body option \<Rightarrow> body option" where
  "serialize E data =
     (case data of Some (DataDict d) \<Rightarrow> Some (DataStr (dumps E d)) | _ \<Rightarrow> data)"

text \<open>\<^verbatim>\<open>obj.get(key, default)\<close>, which only a dictionary has.\<close>

definition dict_get :: "json \<Rightarrow> string \<Rightarrow> json \<Rightarrow> error + json" where
  "dict_get obj key dflt =
     (case obj of
        JDict d \<Rightarrow> Inr (case d key of None \<Rightarrow> dflt | Some v \<Rightarrow> v)
      | _ \<Rightarrow> Inl AttributeError)"

text \<open>
  \<^verbatim>\<open>await sleep(delay)\<close> followed by the rest of the method: the call is recorded;
  the rest runs only if the sleep completes, an exception of the sleep leaves the
  method, and a sleep that never returns leaves the client without a result.
\<close>

definition slept :: "json \<Rightarrow> 'rl world \<Rightarrow> 'rl world" where
  "slept delay w = w\<lparr>trace := trace w @ [Sleep delay]\<rparr>"

definition await_sleep ::
    "'rl env \<Rightarrow> json \<Rightarrow> 'rl world \<Rightarrow> result option \<times> 'rl world \<Rightarrow>
     result option \<times> 'rl world" where
  "await_sleep E delay w rest =
     (case asyncio_sleep E delay of
        Completed \<Rightarrow> rest
      | Raised e \<Rightarrow> (Some (Inl e), slept delay w)
      | Suspended \<Rightarrow> (None, slept delay w))"

definition wait_gate :: "'rl env \<Rightarrow> string \<Rightarrow> meth \<Rightarrow> 'rl world \<Rightarrow> 'rl world" where
  "wait_gate E endpoint method w =
     w\<lparr>limiter := wait_until_not_ratelimited E endpoint method (limiter w),
       trace := trace w @ [Wait endpoint method]\<rparr>"

definition record_bucket :: "'rl env \<Rightarrow> string \<Rightarrow> meth \<Rightarrow> string dict \<Rightarrow> 'rl world \<Rightarrow> 'rl world" where
  "record_bucket E endpoint method hs w =
     w\<lparr>limiter := save_response_bucket E endpoint method hs (limiter w),
       trace := trace w @ [Save endpoint method hs]\<rparr>"

definition issue :: "request \<Rightarrow> 'rl world \<Rightarrow> 'rl world" where
  "issue rq w = w\<lparr>trace := trace w @ [Call rq], network := Suc (network w)\<rparr>"

definition retries_exhausted :: "string \<Rightarrow> error" where
  "retries_exhausted endpoint =
     HTTPError ServerError (''Maximum amount of retries for `'' @ endpoint @ ''`.'')"

text \<open>
  The arguments of the network call in \<^verbatim>\<open>__send\<close>: the url, the serialised data,
  the merged headers and the stripped query parameters.
\<close>

definition request_of ::
    "client \<Rightarrow> meth \<Rightarrow> string \<Rightarrow> string \<Rightarrow> body option \<Rightarrow>
     string option dict option \<Rightarrow> string option dict option \<Rightarrow> request" where
  "request_of c method endpoint content_type data hdrs params =
     \<lparr>req_method = method,
      req_url = url c @ ''/'' @ endpoint,
      req_data = data,
      req_headers = merged_headers content_type hdrs,
      req_params = remove_none params\<rparr>"

subsection \<open>\<^verbatim>\<open>__send\<close> and \<^verbatim>\<open>__handle_response\<close>\<close>

text \<open>
  The two methods call each other without a bound that the source guarantees, so the
  model carries fuel: the number of network calls it may still make. The result is
  \<open>None\<close> when the fuel runs out, that is, when the client is still retrying. The
  first statement of \<^verbatim>\<open>__handle_response\<close> formats \<^verbatim>\<open>await res.text()\<close> into its
  log message, so an exception of that call leaves the method before anything else.
\<close>

fun send ::
    "nat \<Rightarrow> 'rl env \<Rightarrow> client \<Rightarrow> meth \<Rightarrow> string \<Rightarrow> string \<Rightarrow> body option \<Rightarrow>
     string option dict option \<Rightarrow> int option \<Rightarrow> string option dict option \<Rightarrow>
     'rl world \<Rightarrow> result option \<times> 'rl world"
  and handle_response ::
    "nat \<Rightarrow> 'rl env \<Rightarrow> client \<Rightarrow> response \<Rightarrow> meth \<Rightarrow> string \<Rightarrow> string \<Rightarrow> body option \<Rightarrow>
     int \<Rightarrow> 'rl world \<Rightarrow> result option \<times> 'rl world"
where
  "send fuel E c method endpoint content_type data hdrs ttl0 params w =
     (let ttl = ttl_or ttl0 (max_ttl c) in
      if ttl = 0 then (Some (Inl (retries_exhausted endpoint)), w)
      else
        (case fuel of
           0 \<Rightarrow> (None, w)
         | Suc k \<Rightarrow>
            (let data' = serialize E data;
                 w1 = wait_gate E endpoint method w;
                 rq = request_of c method endpoint content_type data' hdrs params;
                 w2 = issue rq w1
             in case transport E (network w1) rq of
                  TransportFailure \<Rightarrow> (Some (Inl ClientConnectionError), w2)
                | Reply res \<Rightarrow>
                    handle_response k E c res method endpoint content_type data' ttl w2)))"
| "handle_response fuel E c res method endpoint content_type data ttl w =
     (case body_text res of
        None \<Rightarrow> (Some (Inl UnicodeDecodeError), w)
      | Some content \<Rightarrow>
         (let w1 = record_bucket E endpoint method (headers res) w in
          if ok res then
            (if status res = 204 then (Some (Inr JNull), w1)
             else
               (case body_json res of
                  None \<Rightarrow> (Some (Inl JSONError), w1)
                | Some j \<Rightarrow> (Some (Inr j), w1)))
          else
            (case http_exceptions (status res) of
               Some exception \<Rightarrow>
                 (if exception = RateLimitError then
                    (case body_json res of
                       None \<Rightarrow> (Some (Inl JSONError), w1)
                     | Some j \<Rightarrow>
                        (case dict_get j ''retry_after'' (JInt 40) of
                           Inl e \<Rightarrow> (Some (Inl e), w1)
                         | Inr timeout \<Rightarrow>
                            await_sleep E timeout w1
                              (send fuel E c method endpoint content_type data None None None
                                 (slept timeout w1))))
                  else (Some (Inl (HTTPError exception (reason res))), w1))
             | None \<Rightarrow>
                 (let retry_in = 1 + (max_ttl c - ttl) * 2 in
                  await_sleep E (JInt retry_in) w1
                    (send fuel E c method endpoint content_type data None (Some (ttl - 1)) None
                       (slept (JInt retry_in) w1))))))"

subsection \<open>The verbs\<close>

text \<open>
  Each verb hands \<^verbatim>\<open>__send\<close> its session method and leaves \<^verbatim>\<open>_ttl\<close> out. The
  content type defaults to \<^verbatim>\<open>"application/json"\<close> where the verb has no such parameter.
\<close>

definition delete ::
    "nat \<Rightarrow> 'rl env \<Rightarrow> client \<Rightarrow> string \<Rightarrow> string option dict option \<Rightarrow>
     'rl world \<Rightarrow> result option \<times> 'rl world" where
  "delete fuel E c route hdrs w =
     send fuel E c DELETE route ''application/json'' None hdrs None None w"

definition get ::
    "nat \<Rightarrow> 'rl env \<Rightarrow> client \<Rightarrow> string \<Rightarrow> string option dict option \<Rightarrow>
     'rl world \<Rightarrow> result option \<times> 'rl world" where
  "get fuel E c route params w =
     send fuel E c GET route ''application/json'' None None None params w"

definition head ::
    "nat \<Rightarrow> 'rl env \<Rightarrow> client \<Rightarrow> string \<Rightarrow> 'rl world \<Rightarrow> result option \<times> 'rl world" where
  "head fuel E c route w =
     send fuel E c HEAD route ''application/json'' None None None None w"

definition options ::
    "nat \<Rightarrow> 'rl env \<Rightarrow> client \<Rightarrow> string \<Rightarrow> 'rl world \<Rightarrow> result option \<times> 'rl world" where
  "options fuel E c route w =
     send fuel E c OPTIONS route ''application/json'' None None None None w"

definition patch ::
    "nat \<Rightarrow> 'rl env \<Rightarrow> client \<Rightarrow> string \<Rightarrow> json dict option \<Rightarrow> string \<Rightarrow>
     string option dict option \<Rightarrow> 'rl world \<Rightarrow> result option \<times> 'rl world" where
  "patch fuel E c route data content_type hdrs w =
     send fuel E c PATCH route content_type (map_option DataDict data) hdrs None None w"

definition post ::
    "nat \<Rightarrow> 'rl env \<Rightarrow> client \<Rightarrow> string \<Rightarrow> json dict option \<Rightarrow> string \<Rightarrow>
     string option dict option \<Rightarrow> 'rl world \<Rightarrow> result option \<times> 'rl world" where
  "post fuel E c route data content_type hdrs w =
     send fuel E c POST route content_type (map_option DataDict data) hdrs None None w"

definition put ::
    "nat \<Rightarrow> 'rl env \<Rightarrow> client \<Rightarrow> string \<Rightarrow> json dict option \<Rightarrow> string \<Rightarrow>
     string option dict option \<Rightarrow> 'rl world \<Rightarrow> result option \<times> 'rl world" where
  "put fuel E c route data content_type hdrs w =
     send fuel E c PUT route content_type (map_option DataDict data) hdrs None None w"

subsection \<open>Reading a trace\<close>

text \<open>The sleeps of a trace, and its network calls, in order.\<close>

fun delays :: "event list \<Rightarrow> json list" where
  "delays [] = []"
| "delays (Sleep d # evs) = d # delays evs"
| "delays (_ # evs) = delays evs"

fun calls :: "event list \<Rightarrow> request list" where
  "calls [] = []"
| "calls (Call rq # evs) = rq # calls evs"
| "calls (_ # evs) = calls evs"

definition content_type_sent :: "request \<Rightarrow> string option" where
  "content_type_sent rq = req_headers rq ''Content-Type''"

subsection \<open>Kinds of reply\<close>

text \<open>
  The outcomes a server reply can have, used to describe what a server does. In each
  the body can be read as text. A server error has a 5xx status. A rate-limited reply
  has status 429 and a JSON object as its body, and the sleep on the retry-after of
  that object completes. A success has a 2xx status and yields the value \<open>v\<close>.
\<close>

definition retry_after :: "json dict \<Rightarrow> json" where
  "retry_after d = (case d ''retry_after'' of None \<Rightarrow> JInt 40 | Some v \<Rightarrow> v)"

definition is_server_error :: "reply \<Rightarrow> bool" where
  "is_server_error r =
     (case r of
        Reply res \<Rightarrow> body_text res \<noteq> None \<and> 500 \<le> status res \<and> status res \<le> 599
      | TransportFailure \<Rightarrow> False)"

definition is_rate_limited :: "'rl env \<Rightarrow> reply \<Rightarrow> bool" where
  "is_rate_limited E r =
     (case r of
        Reply res \<Rightarrow>
          body_text res \<noteq> None \<and> status res = 429 \<and>
          (case body_json res of
             Some (JDict d) \<Rightarrow> asyncio_sleep E (retry_after d) = Completed
           | _ \<Rightarrow> False)
      | TransportFailure \<Rightarrow> False)"

definition is_success :: "json \<Rightarrow> reply \<Rightarrow> bool" where
  "is_success v r =
     (case r of
        Reply res \<Rightarrow>
          body_text res \<noteq> None \<and> 200 \<le> status res \<and> status res \<le> 299 \<and>
          (if status res = 204 then v = JNull else body_json res = Some v)
      | TransportFailure \<Rightarrow> False)"

subsection \<open>A server to run the client against\<close>

text \<open>
  A response with a status and a parsed body, whose text can be read (the text is only
  logged, so it is left empty), and one whose body cannot be decoded at all; a server
  that answers the \<open>i\<close>-th call with the \<open>i\<close>-th response of a script and with a fixed
  response after the script has ended.
\<close>

definition resp :: "int \<Rightarrow> json option \<Rightarrow> response" where
  "resp s b =
     \<lparr>status = s, reason = ''reason'', headers = Map.empty, body_text = Some [],
      body_json = b\<rparr>"

definition garbled :: "int \<Rightarrow> response" where
  "garbled s =
     \<lparr>status = s, reason = ''reason'', headers = Map.empty, body_text = None,
      body_json = None\<rparr>"

definition scripted :: "response list \<Rightarrow> response \<Rightarrow> nat \<Rightarrow> request \<Rightarrow> reply" where
  "scripted rs r i rq = Reply (if i < length rs then rs ! i else r)"

text \<open>
  The sleep of an asyncio event loop, for the examples. A delay that is not a number
  cannot be compared with 0 and raises \<^verbatim>\<open>TypeError\<close>; a \<^verbatim>\<open>bool\<close> is a number. A
  delay of at most 0 returns at once. A positive delay is added to the clock, which is
  a float: an int that does not fit a float (from \<open>2^1024 - 2^970\<close> on) raises
  \<^verbatim>\<open>OverflowError\<close>, any other int and any finite float is slept. A sleep of positive
  infinity never ends. What a sleep of \<^verbatim>\<open>nan\<close> does depends on the interpreter and on
  the other timers of the loop; on this loop it never ends either.
\<close>

definition float_limit :: int where
  "float_limit = 2 ^ 1024 - 2 ^ 970"

definition event_loop :: "json \<Rightarrow> sleep_result" where
  "event_loop delay =
     (case delay of
        JInt n \<Rightarrow>
          (if n \<le> 0 then Completed
           else if n < float_limit then Completed
           else Raised OverflowError)
      | JBool b \<Rightarrow> Completed
      | JFloat f \<Rightarrow>
          (case f of
             Finite m e \<Rightarrow> Completed
           | NegInf \<Rightarrow> Completed
           | PosInf \<Rightarrow> Suspended
           | NaN \<Rightarrow> Suspended)
      | _ \<Rightarrow> Raised TypeError)"

text \<open>
  An environment around such a server and such a loop, whose rate limiter keeps the
  routes it was asked to record.
\<close>

definition test_env :: "(nat \<Rightarrow> request \<Rightarrow> reply) \<Rightarrow> (string list) env" where
  "test_env srv =
     \<lparr>dumps = (\<lambda>d. ''{}''),
      asyncio_sleep = event_loop,
      wait_until_not_ratelimited = (\<lambda>endpoint method s. s),
      save_response_bucket = (\<lambda>endpoint method hs s. endpoint # s),
      transport = srv\<rparr>"

definition test_client :: "int \<Rightarrow> client" where
  "test_client ttl = \<lparr>url = ''https://discord.com/api/v9'', max_ttl = ttl\<rparr>"

definition start :: "(string list) world" where
  "start = \<lparr>limiter = [], trace = [], network = 0\<rparr>"

definition no_retry_after :: "json dict" where
  "no_retry_after = Map.empty"

definition retry_after_is :: "json \<Rightarrow> json dict" where
  "retry_after_is v = [''retry_after'' \<mapsto> v]"

definition plain_text :: "string option dict" where
  "plain_text = [''Content-Type'' \<mapsto> Some ''text/plain'']"

definition members_page :: "string option dict" where
  "members_page = [''limit'' \<mapsto> Some ''10'', ''after'' \<mapsto> None]"

definition audit_reason :: "string option dict" where
  "audit_reason = [''X-Audit-Log-Reason'' \<mapsto> Some ''cleanup'']"

section \<open>Properties\<close>

subsection \<open>Unfolding the two methods\<close>

declare send.simps [simp del] handle_response.simps [simp del]

lemma http_exceptions_5xx: "500 \<le> s \<Longrightarrow> http_exceptions s = None"
  by (simp add: http_exceptions_def)

lemma http_exceptions_429: "http_exceptions 429 = Some RateLimitError"
  by (simp add: http_exceptions_def)

lemma ttl_or_nonzero: "m \<noteq> 0 \<Longrightarrow> ttl_or t m \<noteq> 0"
  by (simp add: ttl_or_def split: option.split)

lemma serialize_idem: "serialize E (serialize E data) = serialize E data"
  by (simp add: serialize_def split: option.split body.split)

lemma world_simps:
  "trace (wait_gate E e m w) = trace w @ [Wait e m]"
  "network (wait_gate E e m w) = network w"
  "limiter (wait_gate E e m w) = wait_until_not_ratelimited E e m (limiter w)"
  "trace (issue rq w) = trace w @ [Call rq]"
  "network (issue rq w) = Suc (network w)"
  "limiter (issue rq w) = limiter w"
  "trace (record_bucket E e m hs w) = trace w @ [Save e m hs]"
  "network (record_bucket E e m hs w) = network w"
  "limiter (record_bucket E e m hs w) = save_response_bucket E e m hs (limiter w)"
  "trace (slept dl w) = trace w @ [Sleep dl]"
  "network (slept dl w) = network w"
  "limiter (slept dl w) = limiter w"
  by (simp_all add: wait_gate_def issue_def record_bucket_def slept_def)

lemma delays_append: "delays (xs @ ys) = delays xs @ delays ys"
  by (induction xs rule: delays.induct) simp_all

lemma calls_append: "calls (xs @ ys) = calls xs @ calls ys"
  by (induction xs rule: calls.induct) simp_all

lemma await_sleep_completed:
  "asyncio_sleep E dl = Completed \<Longrightarrow> await_sleep E dl w rest = rest"
  by (simp add: await_sleep_def)

lemma await_sleep_trace:
  assumes "\<exists>evs. trace (snd rest) = trace (slept dl w) @ evs"
  shows "\<exists>evs. trace (snd (await_sleep E dl w rest)) = trace w @ Sleep dl # evs"
  using assms by (cases "asyncio_sleep E dl") (auto simp: await_sleep_def world_simps)

lemma send_exhausted:
  "ttl_or t (max_ttl c) = 0 \<Longrightarrow>
   send fuel E c m e ct d h t p w = (Some (Inl (retries_exhausted e)), w)"
  by (simp add: send.simps)

lemma send_no_fuel:
  "ttl_or t (max_ttl c) \<noteq> 0 \<Longrightarrow> send 0 E c m e ct d h t p w = (None, w)"
  by (simp add: send.simps)

lemma send_step:
  "ttl_or t (max_ttl c) \<noteq> 0 \<Longrightarrow>
   transport E (network w) (request_of c m e ct (serialize E d) h p) = Reply res \<Longrightarrow>
   send (Suc k) E c m e ct d h t p w =
     handle_response k E c res m e ct (serialize E d) (ttl_or t (max_ttl c))
       (issue (request_of c m e ct (serialize E d) h p) (wait_gate E e m w))"
  by (simp add: send.simps Let_def world_simps)

lemma send_transport_failure:
  "ttl_or t (max_ttl c) \<noteq> 0 \<Longrightarrow>
   transport E (network w) (request_of c m e ct (serialize E d) h p) = TransportFailure \<Longrightarrow>
   send (Suc k) E c m e ct d h t p w =
     (Some (Inl ClientConnectionError),
      issue (request_of c m e ct (serialize E d) h p) (wait_gate E e m w))"
  by (simp add: send.simps Let_def world_simps)

lemma handle_undecodable:
  "body_text res = None \<Longrightarrow>
   handle_response k E c res m e ct d ttl w = (Some (Inl UnicodeDecodeError), w)"
  by (simp add: handle_response.simps)

lemma handle_ok:
  "body_text res \<noteq> None \<Longrightarrow> status res < 400 \<Longrightarrow>
   handle_response k E c res m e ct d ttl w =
     (if status res = 204 then (Some (Inr JNull), record_bucket E e m (headers res) w)
      else case body_json res of
             None \<Rightarrow> (Some (Inl JSONError), record_bucket E e m (headers res) w)
           | Some j \<Rightarrow> (Some (Inr j), record_bucket E e m (headers res) w))"
  by (auto simp: handle_response.simps ok_def Let_def)

lemma handle_unmapped:
  "body_text res \<noteq> None \<Longrightarrow> \<not> status res < 400 \<Longrightarrow> http_exceptions (status res) = None \<Longrightarrow>
   handle_response k E c res m e ct d ttl w =
     await_sleep E (JInt (1 + (max_ttl c - ttl) * 2)) (record_bucket E e m (headers res) w)
       (send k E c m e ct d None (Some (ttl - 1)) None
          (slept (JInt (1 + (max_ttl c - ttl) * 2)) (record_bucket E e m (headers res) w)))"
  by (auto simp: handle_response.simps ok_def Let_def)

lemma handle_5xx:
  "body_text res \<noteq> None \<Longrightarrow> 500 \<le> status res \<Longrightarrow>
   handle_response k E c res m e ct d ttl w =
     await_sleep E (JInt (1 + (max_ttl c - ttl) * 2)) (record_bucket E e m (headers res) w)
       (send k E c m e ct d None (Some (ttl - 1)) None
          (slept (JInt (1 + (max_ttl c - ttl) * 2)) (record_bucket E e m (headers res) w)))"
  by (rule handle_unmapped) (simp_all add: http_exceptions_5xx)

lemma handle_mapped:
  "body_text res \<noteq> None \<Longrightarrow> \<not> status res < 400 \<Longrightarrow>
   http_exceptions (status res) = Some k \<Longrightarrow> k \<noteq> RateLimitError \<Longrightarrow>
   handle_response n E c res m e ct d ttl w =
     (Some (Inl (HTTPError k (reason res))), record_bucket E e m (headers res) w)"
  by (auto simp: handle_response.simps ok_def Let_def)

lemma handle_429:
  "body_text res \<noteq> None \<Longrightarrow> status res = 429 \<Longrightarrow> body_json res = Some (JDict b) \<Longrightarrow>
   handle_response k E c res m e ct d ttl w =
     await_sleep E (retry_after b) (record_bucket E e m (headers res) w)
       (send k E c m e ct d None None None
          (slept (retry_after b) (record_bucket E e m (headers res) w)))"
  by (auto simp: handle_response.simps ok_def Let_def http_exceptions_429
      dict_get_def retry_after_def)

lemma handle_429_not_json:
  "body_text res \<noteq> None \<Longrightarrow> status res = 429 \<Longrightarrow> body_json res = None \<Longrightarrow>
   handle_response k E c res m e ct d ttl w =
     (Some (Inl JSONError), record_bucket E e m (headers res) w)"
  by (auto simp: handle_response.simps ok_def Let_def http_exceptions_429)

lemma handle_429_not_object:
  "body_text res \<noteq> None \<Longrightarrow> status res = 429 \<Longrightarrow> body_json res = Some j \<Longrightarrow>
   \<forall>b. j \<noteq> JDict b \<Longrightarrow>
   handle_response k E c res m e ct d ttl w =
     (Some (Inl AttributeError), record_bucket E e m (headers res) w)"
  by (cases j) (auto simp: handle_response.simps ok_def Let_def http_exceptions_429 dict_get_def)

text \<open>
  Once the body has been read, every outcome is computed in the world in which the
  bucket has been recorded: a result, or a sleep followed by another send.
\<close>

lemma handle_shape:
  "body_text res \<noteq> None \<Longrightarrow>
   (\<exists>r. handle_response k E c res m e ct d ttl w =
          (Some r, record_bucket E e m (headers res) w)) \<or>
   (\<exists>t dl. handle_response k E c res m e ct d ttl w =
          await_sleep E dl (record_bucket E e m (headers res) w)
            (send k E c m e ct d None t None
               (slept dl (record_bucket E e m (headers res) w))))"
  by (auto simp: handle_response.simps Let_def split: option.split sum.split)

lemma trace_grows:
  "\<exists>evs. trace (snd (send n E c m e ct d h t p w)) = trace w @ evs"
proof (induction n arbitrary: d h t p w)
  case 0
  show ?case by (cases "ttl_or t (max_ttl c) = 0") (simp_all add: send_exhausted send_no_fuel)
next
  case (Suc n)
  show ?case
  proof (cases "ttl_or t (max_ttl c) = 0")
    case True
    then show ?thesis by (simp add: send_exhausted)
  next
    case False
    let ?rq = "request_of c m e ct (serialize E d) h p"
    let ?w2 = "issue ?rq (wait_gate E e m w)"
    show ?thesis
    proof (cases "transport E (network w) ?rq")
      case TransportFailure
      with False show ?thesis by (simp add: send_transport_failure world_simps)
    next
      case (Reply res)
      let ?w3 = "record_bucket E e m (headers res) ?w2"
      show ?thesis
      proof (cases "body_text res = None")
        case True
        with False Reply show ?thesis
          by (simp add: send_step handle_undecodable world_simps)
      next
        case readable: False
        from handle_shape [OF readable, of n E c m e ct "serialize E d" "ttl_or t (max_ttl c)" ?w2]
        show ?thesis
        proof (elim disjE exE)
          fix r
          assume "handle_response n E c res m e ct (serialize E d) (ttl_or t (max_ttl c)) ?w2 =
                  (Some r, ?w3)"
          with False Reply show ?thesis by (simp add: send_step world_simps)
        next
          fix t' dl
          assume a: "handle_response n E c res m e ct (serialize E d) (ttl_or t (max_ttl c)) ?w2 =
                  await_sleep E dl ?w3
                    (send n E c m e ct (serialize E d) None t' None (slept dl ?w3))"
          from await_sleep_trace [OF Suc.IH [of "serialize E d" None t' None "slept dl ?w3"]]
          obtain evs where
            "trace (snd (await_sleep E dl ?w3
                (send n E c m e ct (serialize E d) None t' None (slept dl ?w3)))) =
             trace ?w3 @ Sleep dl # evs" by blast
          with False Reply a show ?thesis by (simp add: send_step world_simps)
        qed
      qed
    qed
  qed
qed

lemma handle_trace:
  assumes "body_text res \<noteq> None"
  shows "\<exists>evs. trace (snd (handle_response n E c res m e ct d ttl w)) =
           trace w @ Save e m (headers res) # evs"
proof -
  let ?w1 = "record_bucket E e m (headers res) w"
  from handle_shape [OF assms, of n E c m e ct d ttl w]
  show ?thesis
  proof (elim disjE exE)
    fix r
    assume "handle_response n E c res m e ct d ttl w = (Some r, ?w1)"
    then show ?thesis by (simp add: world_simps)
  next
    fix t' dl
    assume a: "handle_response n E c res m e ct d ttl w =
                await_sleep E dl ?w1 (send n E c m e ct d None t' None (slept dl ?w1))"
    from await_sleep_trace [OF trace_grows [of n E c m e ct d None t' None "slept dl ?w1"]]
    obtain evs where "trace (snd (await_sleep E dl ?w1
          (send n E c m e ct d None t' None (slept dl ?w1)))) = trace ?w1 @ Sleep dl # evs"
      by blast
    with a show ?thesis by (simp add: world_simps)
  qed
qed

lemma handle_trace_grows:
  "\<exists>evs. trace (snd (handle_response n E c res m e ct d ttl w)) = trace w @ evs"
proof (cases "body_text res = None")
  case True
  then show ?thesis by (simp add: handle_undecodable)
next
  case False
  from handle_trace [OF this, of n E c m e ct d ttl w] show ?thesis by auto
qed

lemma server_error_reply:
  "is_server_error r \<Longrightarrow>
   \<exists>res. r = Reply res \<and> body_text res \<noteq> None \<and> 500 \<le> status res \<and> status res \<le> 599"
  by (cases r) (simp_all add: is_server_error_def)

lemma rate_limited_reply:
  "is_rate_limited E r \<Longrightarrow>
   \<exists>res b. r = Reply res \<and> body_text res \<noteq> None \<and> status res = 429 \<and>
           body_json res = Some (JDict b) \<and> asyncio_sleep E (retry_after b) = Completed"
  by (cases r) (auto simp: is_rate_limited_def split: option.splits json.splits)

lemma success_reply:
  "is_success v r \<Longrightarrow>
   \<exists>res. r = Reply res \<and> body_text res \<noteq> None \<and> status res < 400 \<and>
         (if status res = 204 then v = JNull else body_json res = Some v)"
  by (cases r) (auto simp: is_success_def)

lemma event_loop_int: "n < float_limit \<Longrightarrow> event_loop (JInt n) = Completed"
  by (simp add: event_loop_def)

lemma float_limit_large: "1000000 < float_limit"
  by (simp add: float_limit_def)

subsection \<open>Attempts and retries\<close>

lemma send_first_call:
  assumes "ttl_or t (max_ttl c) \<noteq> 0"
  shows "\<exists>evs. trace (snd (send (Suc n) E c m e ct d h t p w)) =
           trace w @ Wait e m # Call (request_of c m e ct (serialize E d) h p) # evs"
proof (cases "transport E (network w) (request_of c m e ct (serialize E d) h p)")
  case TransportFailure
  with assms show ?thesis by (simp add: send_transport_failure world_simps)
next
  case (Reply res)
  let ?w2 = "issue (request_of c m e ct (serialize E d) h p) (wait_gate E e m w)"
  from handle_trace_grows [of n E c res m e ct "serialize E d" "ttl_or t (max_ttl c)" ?w2]
  obtain evs where
    "trace (snd (handle_response n E c res m e ct (serialize E d) (ttl_or t (max_ttl c)) ?w2)) =
     trace ?w2 @ evs" by blast
  with assms Reply show ?thesis by (simp add: send_step world_simps)
qed

lemma send_reply_recorded:
  assumes "ttl_or t (max_ttl c) \<noteq> 0"
    and "transport E (network w) (request_of c m e ct (serialize E d) h p) = Reply res"
    and "body_text res \<noteq> None"
  shows "\<exists>evs. trace (snd (send (Suc n) E c m e ct d h t p w)) =
           trace w @ Wait e m # Call (request_of c m e ct (serialize E d) h p) #
             Save e m (headers res) # evs"
proof -
  let ?w2 = "issue (request_of c m e ct (serialize E d) h p) (wait_gate E e m w)"
  from handle_trace [OF assms(3), of n E c m e ct "serialize E d" "ttl_or t (max_ttl c)" ?w2]
  obtain evs where
    "trace (snd (handle_response n E c res m e ct (serialize E d) (ttl_or t (max_ttl c)) ?w2)) =
     trace ?w2 @ Save e m (headers res) # evs" by blast
  with assms show ?thesis by (simp add: send_step world_simps)
qed

text \<open>One failed attempt against a server that answers with a 5xx status.\<close>

lemma server_error_step:
  assumes "ttl_or t (max_ttl c) \<noteq> 0"
    and "is_server_error (transport E (network w) (request_of c m e ct (serialize E d) h p))"
    and "asyncio_sleep E (JInt (1 + (max_ttl c - ttl_or t (max_ttl c)) * 2)) = Completed"
  shows "\<exists>w'. send (Suc k) E c m e ct d h t p w =
              send k E c m e ct (serialize E d) None (Some (ttl_or t (max_ttl c) - 1)) None w' \<and>
            delays (trace w') =
              delays (trace w) @ [JInt (1 + (max_ttl c - ttl_or t (max_ttl c)) * 2)] \<and>
            network w' = Suc (network w)"
proof -
  from server_error_reply [OF assms(2)] obtain res where
    r: "transport E (network w) (request_of c m e ct (serialize E d) h p) = Reply res"
    and b: "body_text res \<noteq> None" and s: "500 \<le> status res" by blast
  let ?w' = "slept (JInt (1 + (max_ttl c - ttl_or t (max_ttl c)) * 2))
               (record_bucket E e m (headers res)
                 (issue (request_of c m e ct (serialize E d) h p) (wait_gate E e m w)))"
  have "send (Suc k) E c m e ct d h t p w =
        send k E c m e ct (serialize E d) None (Some (ttl_or t (max_ttl c) - 1)) None ?w'"
    using assms(1,3) r b s by (simp add: send_step handle_5xx await_sleep_completed)
  moreover have "delays (trace ?w') =
      delays (trace w) @ [JInt (1 + (max_ttl c - ttl_or t (max_ttl c)) * 2)]"
    by (simp add: world_simps delays_append)
  moreover have "network ?w' = Suc (network w)"
    by (simp add: world_simps)
  ultimately show ?thesis by blast
qed

text \<open>
  With a positive ceiling and a \<^verbatim>\<open>_ttl\<close> that is absent or not negative, the budget of
  an attempt is between 1 and the ceiling or above it, so its backoff delay is below
  twice the ceiling.
\<close>

lemma ttl_or_positive:
  "0 < m \<Longrightarrow> \<forall>k. t = Some k \<longrightarrow> 0 \<le> k \<Longrightarrow> 0 < ttl_or t m"
  by (cases t) (auto simp: ttl_or_def)

lemma server_errors_never_raise:
  assumes pos: "0 < max_ttl c"
    and srv: "\<forall>i rq. is_server_error (transport E i rq)"
    and sl: "\<forall>n. n < 2 * max_ttl c \<longrightarrow> asyncio_sleep E (JInt n) = Completed"
  shows "\<forall>k. t = Some k \<longrightarrow> 0 \<le> k \<Longrightarrow>
         fst (send n E c m e ct d h t p w) = None \<and>
         network (snd (send n E c m e ct d h t p w)) = network w + n"
proof (induction n arbitrary: d h t p w)
  case 0
  from ttl_or_positive [OF pos 0] show ?case by (simp add: send_no_fuel)
next
  case (Suc n)
  from ttl_or_positive [OF pos Suc.prems] have tp: "0 < ttl_or t (max_ttl c)" .
  then have nz: "ttl_or t (max_ttl c) \<noteq> 0" by simp
  from tp have "1 + (max_ttl c - ttl_or t (max_ttl c)) * 2 < 2 * max_ttl c" by simp
  with sl have "asyncio_sleep E (JInt (1 + (max_ttl c - ttl_or t (max_ttl c)) * 2)) = Completed"
    by blast
  from server_error_step [OF nz _ this, of w m e ct d h p n] srv
  obtain w' where
    "send (Suc n) E c m e ct d h t p w =
       send n E c m e ct (serialize E d) None (Some (ttl_or t (max_ttl c) - 1)) None w'"
    and "network w' = Suc (network w)" by blast
  moreover from tp have "\<forall>k. Some (ttl_or t (max_ttl c) - 1) = Some k \<longrightarrow> 0 \<le> k" by simp
  from Suc.IH [OF this, of "serialize E d" None None w']
  have "fst (send n E c m e ct (serialize E d) None (Some (ttl_or t (max_ttl c) - 1)) None w') =
          None \<and>
        network (snd (send n E c m e ct (serialize E d) None (Some (ttl_or t (max_ttl c) - 1))
          None w')) = network w' + n" .
  ultimately show ?case by simp
qed

lemma five_backoffs:
  assumes "max_ttl c = 5"
    and srv: "\<forall>i rq. is_server_error (transport E i rq)"
    and sl: "\<forall>n\<in>{1, 3, 5, 7, 9}. asyncio_sleep E (JInt n) = Completed"
  shows "delays (trace (snd (send 5 E c m e ct d h None p w))) =
         delays (trace w) @ [JInt 1, JInt 3, JInt 5, JInt 7, JInt 9]"
proof -
  let ?d = "serialize E d"
  have t: "ttl_or None (max_ttl c) = 5" "ttl_or (Some 4) (max_ttl c) = 4"
    "ttl_or (Some 3) (max_ttl c) = 3" "ttl_or (Some 2) (max_ttl c) = 2"
    "ttl_or (Some 1) (max_ttl c) = 1" "ttl_or (Some 0) (max_ttl c) = 5"
    using assms(1) by (simp_all add: ttl_or_def)
  from server_error_step [of None c E w m e ct d h p 4] srv sl t assms(1)
  obtain w1 where s1: "send (Suc 4) E c m e ct d h None p w =
        send 4 E c m e ct ?d None (Some 4) None w1"
    and d1: "delays (trace w1) = delays (trace w) @ [JInt 1]" by auto
  from server_error_step [of "Some 4" c E w1 m e ct ?d None None 3] srv sl t assms(1)
  obtain w2 where s2: "send (Suc 3) E c m e ct ?d None (Some 4) None w1 =
        send 3 E c m e ct ?d None (Some 3) None w2"
    and d2: "delays (trace w2) = delays (trace w1) @ [JInt 3]"
    by (auto simp: serialize_idem)
  from server_error_step [of "Some 3" c E w2 m e ct ?d None None 2] srv sl t assms(1)
  obtain w3 where s3: "send (Suc 2) E c m e ct ?d None (Some 3) None w2 =
        send 2 E c m e ct ?d None (Some 2) None w3"
    and d3: "delays (trace w3) = delays (trace w2) @ [JInt 5]"
    by (auto simp: serialize_idem)
  from server_error_step [of "Some 2" c E w3 m e ct ?d None None 1] srv sl t assms(1)
  obtain w4 where s4: "send (Suc 1) E c m e ct ?d None (Some 2) None w3 =
        send 1 E c m e ct ?d None (Some 1) None w4"
    and d4: "delays (trace w4) = delays (trace w3) @ [JInt 7]"
    by (auto simp: serialize_idem)
  from server_error_step [of "Some 1" c E w4 m e ct ?d None None 0] srv sl t assms(1)
  obtain w5 where s5: "send (Suc 0) E c m e ct ?d None (Some 1) None w4 =
        send 0 E c m e ct ?d None (Some 0) None w5"
    and d5: "delays (trace w5) = delays (trace w4) @ [JInt 9]"
    by (auto simp: serialize_idem)
  have s6: "send 0 E c m e ct ?d None (Some 0) None w5 = (None, w5)"
    using t by (simp add: send_no_fuel)
  have "send 5 E c m e ct d h None p w = (None, w5)"
    using s1 s2 s3 s4 s5 s6 by (simp add: eval_nat_numeral)
  then show ?thesis using d1 d2 d3 d4 d5 by simp
qed

lemma server_errors_then_success:
  assumes pos: "0 < max_ttl c"
    and sl: "\<forall>n. n < 2 * max_ttl c \<longrightarrow> asyncio_sleep E (JInt n) = Completed"
  shows "\<forall>k. t = Some k \<longrightarrow> 0 \<le> k \<Longrightarrow>
         (\<forall>i<K. \<forall>rq. is_server_error (transport E (network w + i) rq)) \<Longrightarrow>
         (\<forall>rq. is_success v (transport E (network w + K) rq)) \<Longrightarrow>
         fst (send (Suc K + k) E c m e ct d h t p w) = Some (Inr v)"
proof (induction K arbitrary: d h t p w)
  case 0
  from ttl_or_positive [OF pos 0(1)] have nz: "ttl_or t (max_ttl c) \<noteq> 0" by simp
  from 0 have "is_success v (transport E (network w) (request_of c m e ct (serialize E d) h p))"
    by simp
  from success_reply [OF this] obtain res where
    r: "transport E (network w) (request_of c m e ct (serialize E d) h p) = Reply res"
    and x: "body_text res \<noteq> None" and s: "status res < 400"
    and b: "if status res = 204 then v = JNull else body_json res = Some v" by blast
  from nz r x s b show ?case
    by (simp add: send_step handle_ok split: if_splits)
next
  case (Suc K)
  from ttl_or_positive [OF pos Suc.prems(1)] have tp: "0 < ttl_or t (max_ttl c)" .
  then have nz: "ttl_or t (max_ttl c) \<noteq> 0" by simp
  from tp have "1 + (max_ttl c - ttl_or t (max_ttl c)) * 2 < 2 * max_ttl c" by simp
  with sl have c: "asyncio_sleep E (JInt (1 + (max_ttl c - ttl_or t (max_ttl c)) * 2)) = Completed"
    by blast
  from Suc.prems(2)
  have "is_server_error (transport E (network w + 0) (request_of c m e ct (serialize E d) h p))"
    by blast
  then have "is_server_error (transport E (network w) (request_of c m e ct (serialize E d) h p))"
    by simp
  from server_error_step [OF nz this c, of "Suc K + k"] obtain w' where
    step: "send (Suc (Suc K) + k) E c m e ct d h t p w =
           send (Suc K + k) E c m e ct (serialize E d) None
             (Some (ttl_or t (max_ttl c) - 1)) None w'"
    and nw: "network w' = Suc (network w)" by auto
  have a0: "\<forall>k. Some (ttl_or t (max_ttl c) - 1) = Some k \<longrightarrow> 0 \<le> k" using tp by simp
  have a1: "\<forall>i<K. \<forall>rq. is_server_error (transport E (network w' + i) rq)"
  proof (intro allI impI)
    fix i rq assume "i < K"
    then have "Suc i < Suc K" by simp
    with Suc.prems(2) have "is_server_error (transport E (network w + Suc i) rq)" by blast
    then show "is_server_error (transport E (network w' + i) rq)" by (simp add: nw)
  qed
  have a2: "\<forall>rq. is_success v (transport E (network w' + K) rq)"
    using Suc.prems(3) by (simp add: nw)
  from Suc.IH [OF a0 a1 a2, of "serialize E d" None None] step
  show ?case by simp
qed

lemma rate_limited_then_success:
  assumes c: "max_ttl c \<noteq> 0"
  shows "(\<forall>i<N. \<forall>rq. is_rate_limited E (transport E (network w + i) rq)) \<Longrightarrow>
         (\<forall>rq. is_success v (transport E (network w + N) rq)) \<Longrightarrow>
         fst (send (Suc N + k) E c m e ct d h t p w) = Some (Inr v)"
proof (induction N arbitrary: d h t p w)
  case 0
  have nz: "ttl_or t (max_ttl c) \<noteq> 0" using c by (rule ttl_or_nonzero)
  from 0 have "is_success v (transport E (network w) (request_of c m e ct (serialize E d) h p))"
    by simp
  from success_reply [OF this] obtain res where
    r: "transport E (network w) (request_of c m e ct (serialize E d) h p) = Reply res"
    and x: "body_text res \<noteq> None" and s: "status res < 400"
    and b: "if status res = 204 then v = JNull else body_json res = Some v" by blast
  from nz r x s b show ?case
    by (simp add: send_step handle_ok split: if_splits)
next
  case (Suc N)
  have nz: "ttl_or t (max_ttl c) \<noteq> 0" using c by (rule ttl_or_nonzero)
  let ?rq = "request_of c m e ct (serialize E d) h p"
  from Suc.prems(1) have "is_rate_limited E (transport E (network w + 0) ?rq)" by blast
  then have "is_rate_limited E (transport E (network w) ?rq)" by simp
  from rate_limited_reply [OF this] obtain res b where
    r: "transport E (network w) ?rq = Reply res" and x: "body_text res \<noteq> None"
    and s: "status res = 429" and j: "body_json res = Some (JDict b)"
    and n: "asyncio_sleep E (retry_after b) = Completed" by blast
  let ?w' = "slept (retry_after b)
               (record_bucket E e m (headers res) (issue ?rq (wait_gate E e m w)))"
  have step: "send (Suc (Suc N) + k) E c m e ct d h t p w =
              send (Suc N + k) E c m e ct (serialize E d) None None None ?w'"
    using nz r x s j n by (simp add: send_step handle_429 await_sleep_completed)
  have nw: "network ?w' = Suc (network w)" by (simp add: world_simps)
  have a1: "\<forall>i<N. \<forall>rq. is_rate_limited E (transport E (network ?w' + i) rq)"
  proof (intro allI impI)
    fix i rq assume "i < N"
    then have "Suc i < Suc N" by simp
    with Suc.prems(1) have "is_rate_limited E (transport E (network w + Suc i) rq)" by blast
    then show "is_rate_limited E (transport E (network ?w' + i) rq)" by (simp add: nw)
  qed
  have a2: "\<forall>rq. is_success v (transport E (network ?w' + N) rq)"
    using Suc.prems(2) by (simp add: nw)
  from Suc.IH [OF a1 a2, of "serialize E d" None None None] step
  show ?case by simp
qed

subsection \<open>Running the client\<close>

lemma event_loop_small: "n < 1000000 \<Longrightarrow> event_loop (JInt n) = Completed"
  using float_limit_large by (simp add: event_loop_int)

lemmas fixture_defs = test_env_def scripted_def resp_def garbled_def test_client_def start_def

lemmas run_defs = send.simps handle_response.simps Let_def ttl_or_def ok_def
  http_exceptions_def await_sleep_def event_loop_small dict_get_def serialize_def world_simps

subsection \<open>Exhausting the retry budget\<close>

text \<open>
  C1. The claim: with a ceiling of at least 1 and a server that answers every attempt
  with a 5xx status, the client raises the retries-exhausted \<open>ServerError\<close> after exactly
  as many attempts as the ceiling. The code does not: the last retry passes
  \<^verbatim>\<open>_ttl = 0\<close>, which \<^verbatim>\<open>_ttl or self.max_ttl\<close> replaces by the ceiling, so the budget
  starts again. Against such a server, on an event loop that completes the backoff
  sleeps (all below twice the ceiling), the client has after any number \<open>n\<close> of network
  calls raised nothing and returned nothing. The other half of the claim holds, and
  for any number \<open>K\<close> of server errors before the success, not only for fewer than the
  ceiling.
\<close>

theorem server_errors_never_exhaust_budget:
  assumes "0 < max_ttl c"
    and "\<forall>k. t = Some k \<longrightarrow> 0 \<le> k"
    and "\<forall>n. n < 2 * max_ttl c \<longrightarrow> asyncio_sleep E (JInt n) = Completed"
  shows "((\<forall>i rq. is_server_error (transport E i rq)) \<longrightarrow>
            fst (send n E c m e ct d h t p w) = None \<and>
            network (snd (send n E c m e ct d h t p w)) = network w + n) \<and>
         ((\<forall>i<K. \<forall>rq. is_server_error (transport E (network w + i) rq)) \<and>
          (\<forall>rq. is_success v (transport E (network w + K) rq)) \<longrightarrow>
            fst (send (Suc K + k) E c m e ct d h t p w) = Some (Inr v))"
proof (intro conjI impI)
  assume "\<forall>i rq. is_server_error (transport E i rq)"
  from server_errors_never_raise [OF assms(1) this assms(3) assms(2)]
  show "fst (send n E c m e ct d h t p w) = None" by simp
next
  assume "\<forall>i rq. is_server_error (transport E i rq)"
  from server_errors_never_raise [OF assms(1) this assms(3) assms(2)]
  show "network (snd (send n E c m e ct d h t p w)) = network w + n" by simp
next
  assume "(\<forall>i<K. \<forall>rq. is_server_error (transport E (network w + i) rq)) \<and>
          (\<forall>rq. is_success v (transport E (network w + K) rq))"
  then have "\<forall>i<K. \<forall>rq. is_server_error (transport E (network w + i) rq)"
    and "\<forall>rq. is_success v (transport E (network w + K) rq)" by blast+
  from server_errors_then_success [OF assms(1) assms(3) assms(2) this]
  show "fst (send (Suc K + k) E c m e ct d h t p w) = Some (Inr v)" .
qed

theorem server_errors_never_exhaust_budget_witness:
  "0 < max_ttl (test_client 1) \<and>
   fst (send 3 (test_env (scripted [] (resp 500 None))) (test_client 1) GET ''gateway''
          ''application/json'' None None None None start) = None \<and>
   network (snd (send 3 (test_env (scripted [] (resp 500 None))) (test_client 1) GET ''gateway''
          ''application/json'' None None None None start)) = 3 \<and>
   fst (send 3 (test_env (scripted [resp 500 None, resp 502 None] (resp 200 (Some (JStr ''ok'')))))
          (test_client 1) GET ''gateway'' ''application/json'' None None None None start) =
     Some (Inr (JStr ''ok''))"
proof -
  let ?E = "test_env (scripted [] (resp 500 None))"
  let ?F = "test_env (scripted [resp 500 None, resp 502 None] (resp 200 (Some (JStr ''ok''))))"
  have h1: "0 < max_ttl (test_client 1)"
    by (simp add: test_client_def)
  have h0: "\<forall>k. (None :: int option) = Some k \<longrightarrow> 0 \<le> k" by simp
  have s1: "\<forall>n. n < 2 * max_ttl (test_client 1) \<longrightarrow> asyncio_sleep ?E (JInt n) = Completed"
    by (simp add: fixture_defs event_loop_small)
  have s2: "\<forall>n. n < 2 * max_ttl (test_client 1) \<longrightarrow> asyncio_sleep ?F (JInt n) = Completed"
    by (simp add: fixture_defs event_loop_small)
  have h2: "\<forall>i rq. is_server_error (transport ?E i rq)"
    by (simp add: fixture_defs is_server_error_def)
  have h3: "(\<forall>i<2. \<forall>rq. is_server_error (transport ?F (network start + i) rq)) \<and>
            (\<forall>rq. is_success (JStr ''ok'') (transport ?F (network start + 2) rq))"
    by (simp add: fixture_defs is_server_error_def is_success_def eval_nat_numeral All_less_Suc)
  from server_errors_never_exhaust_budget [OF h1 h0 s1, of 3 GET "''gateway''"
      "''application/json''" None None None start 0 "JStr ''ok''" 0] h2
  have a: "fst (send 3 ?E (test_client 1) GET ''gateway'' ''application/json'' None None None
             None start) = None \<and>
           network (snd (send 3 ?E (test_client 1) GET ''gateway'' ''application/json'' None None
             None None start)) = 3"
    by (simp add: start_def)
  from server_errors_never_exhaust_budget [OF h1 h0 s2, of 0 GET "''gateway''"
      "''application/json''" None None None start 2 "JStr ''ok''" 0] h3
  have b: "fst (send 3 ?F (test_client 1) GET ''gateway'' ''application/json'' None None None
             None start) = Some (Inr (JStr ''ok''))"
    by (simp add: eval_nat_numeral)
  from h1 a b show ?thesis by blast
qed

subsection \<open>Client errors\<close>

text \<open>
  C2. The claim: every 4xx status other than 429 raises a mapped error and is not
  retried. The table holds only 400, 401, 403, 404 and 405; any other 4xx status falls
  through to the branch commented "status code is guaranteed to be 5xx": once the body
  has been read for the log, the client awaits the backoff sleep and sends the request
  again with one attempt less.
\<close>

theorem unmapped_client_error_is_retried:
  assumes "400 \<le> status res" and "status res \<le> 499"
    and "status res \<notin> {400, 401, 403, 404, 405, 429}"
  shows "handle_response n E c res m e ct d ttl w =
         (case body_text res of
            None \<Rightarrow> (Some (Inl UnicodeDecodeError), w)
          | Some content \<Rightarrow>
              await_sleep E (JInt (1 + (max_ttl c - ttl) * 2))
                (record_bucket E e m (headers res) w)
                (send n E c m e ct d None (Some (ttl - 1)) None
                   (slept (JInt (1 + (max_ttl c - ttl) * 2))
                      (record_bucket E e m (headers res) w))))"
proof (cases "body_text res")
  case None
  then show ?thesis by (simp add: handle_undecodable)
next
  case (Some x)
  then have "body_text res \<noteq> None" by simp
  moreover from assms(1) have "\<not> status res < 400" by simp
  moreover from assms have "http_exceptions (status res) = None"
    by (simp add: http_exceptions_def)
  ultimately show ?thesis using Some by (simp add: handle_unmapped)
qed

theorem unmapped_client_error_is_retried_witness:
  "400 \<le> status (resp 409 None) \<and> status (resp 409 None) \<le> 499 \<and>
   status (resp 409 None) \<notin> {400, 401, 403, 404, 405, 429} \<and>
   handle_response 1 (test_env (scripted [] (resp 200 (Some (JStr ''ok''))))) (test_client 5)
     (resp 409 None) POST ''channels/1/messages'' ''application/json'' None 5 start =
   (Some (Inr (JStr ''ok'')),
    \<lparr>limiter = [''channels/1/messages'', ''channels/1/messages''],
     trace = [Save ''channels/1/messages'' POST Map.empty,
              Sleep (JInt 1),
              Wait ''channels/1/messages'' POST,
              Call (request_of (test_client 5) POST ''channels/1/messages''
                      ''application/json'' None None None),
              Save ''channels/1/messages'' POST Map.empty],
     network = 1\<rparr>)"
proof -
  have h1: "400 \<le> status (resp 409 None)" by (simp add: resp_def)
  have h2: "status (resp 409 None) \<le> 499" by (simp add: resp_def)
  have h3: "status (resp 409 None) \<notin> {400, 401, 403, 404, 405, 429}" by (simp add: resp_def)
  from unmapped_client_error_is_retried [OF h1 h2 h3, of 1
      "test_env (scripted [] (resp 200 (Some (JStr ''ok''))))" "test_client 5" POST
      "''channels/1/messages''" "''application/json''" None 5 start] h1 h2 h3
  show ?thesis
    by (simp add: fixture_defs run_defs slept_def record_bucket_def)
qed

text \<open>
  C3. The claim: each of 304, 400, 401, 403, 404 and 405 raises its own error and is
  never retried. That holds for the five 4xx statuses: once the body has been read for
  the log, the error carries the reason of the response, and nothing follows the record
  of the bucket. It fails for 304: the table has the entry, but \<^verbatim>\<open>res.ok\<close> holds for
  every status below 400 and is tested first, so a 304 is handled as a success: its
  decoded body is returned, and the table is never consulted.
\<close>

theorem not_modified_is_returned_as_success:
  "(status res = 304 \<longrightarrow>
      handle_response n E c res m e ct d ttl w =
      (case body_text res of
         None \<Rightarrow> (Some (Inl UnicodeDecodeError), w)
       | Some content \<Rightarrow>
          (case body_json res of
             None \<Rightarrow> (Some (Inl JSONError), record_bucket E e m (headers res) w)
           | Some j \<Rightarrow> (Some (Inr j), record_bucket E e m (headers res) w)))) \<and>
   ((status res, k) \<in> {(400, BadRequestError), (401, UnauthorizedError),
        (403, ForbiddenError), (404, NotFoundError), (405, MethodNotAllowedError)} \<longrightarrow>
      handle_response n E c res m e ct d ttl w =
      (case body_text res of
         None \<Rightarrow> (Some (Inl UnicodeDecodeError), w)
       | Some content \<Rightarrow>
          (Some (Inl (HTTPError k (reason res))), record_bucket E e m (headers res) w)))"
proof (intro conjI impI)
  assume "status res = 304"
  then show "handle_response n E c res m e ct d ttl w =
      (case body_text res of
         None \<Rightarrow> (Some (Inl UnicodeDecodeError), w)
       | Some content \<Rightarrow>
          (case body_json res of
             None \<Rightarrow> (Some (Inl JSONError), record_bucket E e m (headers res) w)
           | Some j \<Rightarrow> (Some (Inr j), record_bucket E e m (headers res) w)))"
    by (cases "body_text res") (simp_all add: handle_undecodable handle_ok)
next
  assume a: "(status res, k) \<in> {(400, BadRequestError), (401, UnauthorizedError),
        (403, ForbiddenError), (404, NotFoundError), (405, MethodNotAllowedError)}"
  then have s: "\<not> status res < 400" by auto
  from a have t: "http_exceptions (status res) = Some k"
    by (auto simp: http_exceptions_def)
  from a have r: "k \<noteq> RateLimitError" by auto
  show "handle_response n E c res m e ct d ttl w =
      (case body_text res of
         None \<Rightarrow> (Some (Inl UnicodeDecodeError), w)
       | Some content \<Rightarrow>
          (Some (Inl (HTTPError k (reason res))), record_bucket E e m (headers res) w))"
  proof (cases "body_text res")
    case None
    then show ?thesis by (simp add: handle_undecodable)
  next
    case (Some x)
    then have "body_text res \<noteq> None" by simp
    from handle_mapped [OF this s t r] Some show ?thesis by simp
  qed
qed

theorem not_modified_is_returned_as_success_witness:
  "fst (handle_response 0 (test_env (scripted [] (resp 304 (Some JNull)))) (test_client 5)
          (resp 304 (Some JNull)) GET ''guilds/1'' ''application/json'' None 5 start) =
     Some (Inr JNull) \<and>
   fst (handle_response 0 (test_env (scripted [] (resp 304 (Some JNull)))) (test_client 5)
          (resp 403 None) GET ''guilds/1'' ''application/json'' None 5 start) =
     Some (Inl (HTTPError ForbiddenError ''reason''))"
proof -
  let ?E = "test_env (scripted [] (resp 304 (Some JNull)))"
  have h1: "status (resp 304 (Some JNull)) = 304" by (simp add: resp_def)
  have h2: "(status (resp 403 None), ForbiddenError) \<in>
      {(400, BadRequestError), (401, UnauthorizedError),
       (403, ForbiddenError), (404, NotFoundError), (405, MethodNotAllowedError)}"
    by (simp add: resp_def)
  from not_modified_is_returned_as_success [of "resp 304 (Some JNull)" 0 ?E "test_client 5"
      GET "''guilds/1''" "''application/json''" None 5 start ForbiddenError] h1
  have a: "fst (handle_response 0 ?E (test_client 5) (resp 304 (Some JNull)) GET ''guilds/1''
             ''application/json'' None 5 start) = Some (Inr JNull)"
    by (simp add: resp_def)
  from not_modified_is_returned_as_success [of "resp 403 None" 0 ?E "test_client 5"
      GET "''guilds/1''" "''application/json''" None 5 start ForbiddenError] h2
  have b: "fst (handle_response 0 ?E (test_client 5) (resp 403 None) GET ''guilds/1''
             ''application/json'' None 5 start) = Some (Inl (HTTPError ForbiddenError ''reason''))"
    by (simp add: resp_def)
  from a b show ?thesis by blast
qed

subsection \<open>Rate limits\<close>

text \<open>
  C4. The claim: after a 429 the client retries the same attempt with ttl unchanged.
  The retry leaves \<^verbatim>\<open>_ttl\<close> out, so it does not run with the ttl of the throttled
  attempt: with a ceiling of 5, a 429 received at ttl 3 is not followed by a send at
  ttl 3 (the next server error would be followed by a sleep of 5 seconds; the code
  sleeps 1 second).
\<close>

theorem rate_limit_keeps_ttl_counterexample:
  "handle_response 1 (test_env (scripted [] (resp 500 None))) (test_client 5)
     (resp 429 (Some (JDict (retry_after_is (JInt 7))))) GET ''gateway''
     ''application/json'' None 3 start \<noteq>
   send 1 (test_env (scripted [] (resp 500 None))) (test_client 5) GET ''gateway''
     ''application/json'' None None (Some 3) None
     (slept (JInt 7)
        (record_bucket (test_env (scripted [] (resp 500 None))) ''gateway'' GET
           (headers (resp 429 (Some (JDict (retry_after_is (JInt 7)))))) start))"
  by (simp add: fixture_defs run_defs slept_def record_bucket_def retry_after_is_def
      wait_gate_def issue_def)

text \<open>
  C4, amended. A 429 never decrements the retry budget: the client sleeps for the
  retry-after of the body and sends again without \<^verbatim>\<open>_ttl\<close>, that is, with the budget
  back at the ceiling. So for a ceiling other than 0 and every \<open>N\<close>, \<open>N\<close> rate-limited
  replies (each with a readable body that is a JSON object, and a sleep on its
  retry-after that completes) followed by a success yield the value of the success.
\<close>

theorem rate_limit_restarts_budget:
  assumes "max_ttl c \<noteq> 0"
    and "\<forall>i<N. \<forall>rq. is_rate_limited E (transport E (network w + i) rq)"
    and "\<forall>rq. is_success v (transport E (network w + N) rq)"
  shows "fst (send (Suc N + k) E c m e ct d h t p w) = Some (Inr v) \<and>
         ttl_or None (max_ttl c) = max_ttl c \<and>
         (is_rate_limited E (Reply res) \<and> body_json res = Some (JDict b) \<longrightarrow>
            handle_response j E c res m e ct d ttl w' =
            send j E c m e ct d None None None
              (slept (retry_after b) (record_bucket E e m (headers res) w')))"
proof (intro conjI impI)
  from rate_limited_then_success [OF assms]
  show "fst (send (Suc N + k) E c m e ct d h t p w) = Some (Inr v)" .
next
  show "ttl_or None (max_ttl c) = max_ttl c" by (simp add: ttl_or_def)
next
  assume a: "is_rate_limited E (Reply res) \<and> body_json res = Some (JDict b)"
  then have "body_text res \<noteq> None" and "status res = 429"
    and "asyncio_sleep E (retry_after b) = Completed"
    by (auto simp: is_rate_limited_def)
  with a show "handle_response j E c res m e ct d ttl w' =
      send j E c m e ct d None None None
        (slept (retry_after b) (record_bucket E e m (headers res) w'))"
    by (simp add: handle_429 await_sleep_completed)
qed

theorem rate_limit_restarts_budget_witness:
  "max_ttl (test_client 5) \<noteq> 0 \<and>
   fst (send 3 (test_env (scripted [resp 429 (Some (JDict (retry_after_is (JInt 7)))),
                                    resp 429 (Some (JDict no_retry_after))]
                           (resp 200 (Some (JStr ''ok'')))))
          (test_client 5) GET ''gateway'' ''application/json'' None None None None start) =
     Some (Inr (JStr ''ok''))"
proof -
  let ?E = "test_env (scripted [resp 429 (Some (JDict (retry_after_is (JInt 7)))),
                                resp 429 (Some (JDict no_retry_after))]
                       (resp 200 (Some (JStr ''ok''))))"
  have h1: "max_ttl (test_client 5) \<noteq> 0" by (simp add: test_client_def)
  have h2: "\<forall>i<2. \<forall>rq. is_rate_limited ?E (transport ?E (network start + i) rq)"
    by (simp add: fixture_defs is_rate_limited_def retry_after_def retry_after_is_def
        no_retry_after_def eval_nat_numeral All_less_Suc event_loop_small)
  have h3: "\<forall>rq. is_success (JStr ''ok'') (transport ?E (network start + 2) rq)"
    by (simp add: fixture_defs is_success_def)
  from rate_limit_restarts_budget [OF h1 h2 h3, of 0 GET "''gateway''" "''application/json''"
      None None None None] h1
  show ?thesis by (simp add: eval_nat_numeral)
qed

text \<open>
  C8. The claim: on every 429 the client sleeps for the retry-after of the body, and
  for 40 seconds when the body omits it. The fallback is the default of \<^verbatim>\<open>.get\<close> on
  the decoded body, so it needs a body that decodes to a JSON object: a 429 with a body
  that is not JSON (an HTML page), or that is JSON but not an object, raises without
  any sleep.
\<close>

theorem rate_limit_fallback_counterexample:
  "fst (handle_response 1 (test_env (scripted [] (resp 200 None))) (test_client 5)
          (resp 429 None) GET ''gateway'' ''application/json'' None 5 start) =
     Some (Inl JSONError) \<and>
   delays (trace (snd (handle_response 1 (test_env (scripted [] (resp 200 None))) (test_client 5)
          (resp 429 None) GET ''gateway'' ''application/json'' None 5 start))) = [] \<and>
   fst (handle_response 1 (test_env (scripted [] (resp 200 None))) (test_client 5)
          (resp 429 (Some (JList []))) GET ''gateway'' ''application/json'' None 5 start) =
     Some (Inl AttributeError) \<and>
   delays (trace (snd (handle_response 1 (test_env (scripted [] (resp 200 None))) (test_client 5)
          (resp 429 (Some (JList []))) GET ''gateway'' ''application/json'' None 5 start))) = []"
  by (simp add: fixture_defs run_defs record_bucket_def)

text \<open>
  C8, amended. On a 429 whose body can be read and decodes to a JSON object, the delay
  handed to \<^verbatim>\<open>sleep\<close> is the \<^verbatim>\<open>retry_after\<close> entry of that object, and 40 when the
  object has no such entry; the sleep comes right after the bucket is recorded, and the
  request is sent again when the sleep completes. A 429 whose body is not JSON, or is
  JSON but not an object, raises after the bucket is recorded, without a sleep.
\<close>

theorem rate_limit_sleeps_retry_after:
  assumes "status res = 429" and "body_text res \<noteq> None"
  shows "(body_json res = Some (JDict b) \<longrightarrow>
            handle_response n E c res m e ct d ttl w =
            await_sleep E (case b ''retry_after'' of None \<Rightarrow> JInt 40 | Some v \<Rightarrow> v)
              (record_bucket E e m (headers res) w)
              (send n E c m e ct d None None None
                 (slept (case b ''retry_after'' of None \<Rightarrow> JInt 40 | Some v \<Rightarrow> v)
                    (record_bucket E e m (headers res) w)))) \<and>
         (body_json res = None \<longrightarrow>
            handle_response n E c res m e ct d ttl w =
            (Some (Inl JSONError), record_bucket E e m (headers res) w)) \<and>
         (body_json res = Some j \<and> (\<forall>b. j \<noteq> JDict b) \<longrightarrow>
            handle_response n E c res m e ct d ttl w =
            (Some (Inl AttributeError), record_bucket E e m (headers res) w))"
proof (intro conjI impI)
  assume "body_json res = Some (JDict b)"
  from handle_429 [OF assms(2,1) this, of n E c m e ct d ttl w]
  show "handle_response n E c res m e ct d ttl w =
      await_sleep E (case b ''retry_after'' of None \<Rightarrow> JInt 40 | Some v \<Rightarrow> v)
        (record_bucket E e m (headers res) w)
        (send n E c m e ct d None None None
           (slept (case b ''retry_after'' of None \<Rightarrow> JInt 40 | Some v \<Rightarrow> v)
              (record_bucket E e m (headers res) w)))"
    by (simp add: retry_after_def)
next
  assume "body_json res = None"
  from handle_429_not_json [OF assms(2,1) this]
  show "handle_response n E c res m e ct d ttl w =
      (Some (Inl JSONError), record_bucket E e m (headers res) w)" .
next
  assume "body_json res = Some j \<and> (\<forall>b. j \<noteq> JDict b)"
  then have "body_json res = Some j" and "\<forall>b. j \<noteq> JDict b" by simp_all
  from handle_429_not_object [OF assms(2,1) this]
  show "handle_response n E c res m e ct d ttl w =
      (Some (Inl AttributeError), record_bucket E e m (headers res) w)" .
qed

theorem rate_limit_sleeps_retry_after_witness:
  "trace (snd (handle_response 0 (test_env (scripted [] (resp 200 None))) (test_client 5)
                 (resp 429 (Some (JDict (retry_after_is (JFloat (Finite 3 (-1))))))) GET
                 ''gateway'' ''application/json'' None 5 start)) =
     [Save ''gateway'' GET Map.empty, Sleep (JFloat (Finite 3 (-1)))] \<and>
   trace (snd (handle_response 0 (test_env (scripted [] (resp 200 None))) (test_client 5)
                 (resp 429 (Some (JDict no_retry_after))) GET ''gateway''
                 ''application/json'' None 5 start)) =
     [Save ''gateway'' GET Map.empty, Sleep (JInt 40)]"
proof -
  let ?E = "test_env (scripted [] (resp 200 None))"
  let ?r1 = "resp 429 (Some (JDict (retry_after_is (JFloat (Finite 3 (-1))))))"
  let ?r2 = "resp 429 (Some (JDict no_retry_after))"
  have a: "status ?r1 = 429" "body_text ?r1 \<noteq> None"
    "body_json ?r1 = Some (JDict (retry_after_is (JFloat (Finite 3 (-1)))))"
    by (simp_all add: resp_def)
  have b: "status ?r2 = 429" "body_text ?r2 \<noteq> None" "body_json ?r2 = Some (JDict no_retry_after)"
    by (simp_all add: resp_def)
  have l: "asyncio_sleep ?E (JFloat (Finite 3 (-1))) = Completed"
    by (simp add: test_env_def event_loop_def)
  have l': "asyncio_sleep ?E (JInt 40) = Completed"
    by (simp add: test_env_def event_loop_small)
  have z: "\<And>w. send 0 ?E (test_client 5) GET ''gateway'' ''application/json'' None None None
             None w = (None, w)"
    by (simp add: send_no_fuel ttl_or_def test_client_def)
  from rate_limit_sleeps_retry_after [OF a(1,2), of "retry_after_is (JFloat (Finite 3 (-1)))"
      0 ?E "test_client 5" GET "''gateway''" "''application/json''" None 5 start JNull] a(3)
  have x: "trace (snd (handle_response 0 ?E (test_client 5) ?r1 GET ''gateway''
             ''application/json'' None 5 start)) =
     [Save ''gateway'' GET Map.empty, Sleep (JFloat (Finite 3 (-1)))]"
    using l z
    by (simp add: retry_after_is_def await_sleep_completed world_simps start_def resp_def)
  from rate_limit_sleeps_retry_after [OF b(1,2), of no_retry_after
      0 ?E "test_client 5" GET "''gateway''" "''application/json''" None 5 start JNull] b(3)
  have y: "trace (snd (handle_response 0 ?E (test_client 5) ?r2 GET ''gateway''
             ''application/json'' None 5 start)) =
     [Save ''gateway'' GET Map.empty, Sleep (JInt 40)]"
    using l' z
    by (simp add: no_retry_after_def await_sleep_completed world_simps start_def resp_def)
  from x y show ?thesis by blast
qed

subsection \<open>Backoff\<close>

text \<open>
  C5. On a 5xx response received with remaining budget \<open>ttl\<close>, the only sleep of the
  client is the one it awaits before the retry, of exactly \<open>1 + (max_ttl - ttl) * 2\<close>
  seconds; the retry runs with \<open>ttl - 1\<close>. (When the body cannot be read for the log,
  the client raises and neither sleeps nor retries.) With a ceiling of 5, against a
  server that keeps answering 5xx and on an event loop that completes these sleeps, the
  sleeps of the first five attempts are 1, 3, 5, 7 and 9 seconds.
\<close>

theorem server_error_backoff_delay:
  "(500 \<le> status res \<and> status res \<le> 599 \<longrightarrow>
      handle_response n E c res m e ct d ttl w =
      (case body_text res of
         None \<Rightarrow> (Some (Inl UnicodeDecodeError), w)
       | Some content \<Rightarrow>
           await_sleep E (JInt (1 + (max_ttl c - ttl) * 2))
             (record_bucket E e m (headers res) w)
             (send n E c m e ct d None (Some (ttl - 1)) None
                (slept (JInt (1 + (max_ttl c - ttl) * 2))
                   (record_bucket E e m (headers res) w))))) \<and>
   (max_ttl c = 5 \<and> (\<forall>i rq. is_server_error (transport E i rq)) \<and>
    (\<forall>n\<in>{1, 3, 5, 7, 9}. asyncio_sleep E (JInt n) = Completed) \<longrightarrow>
      delays (trace (snd (send 5 E c m e ct d h None p w))) =
      delays (trace w) @ [JInt 1, JInt 3, JInt 5, JInt 7, JInt 9])"
proof (intro conjI impI)
  assume "500 \<le> status res \<and> status res \<le> 599"
  then have s: "500 \<le> status res" by simp
  show "handle_response n E c res m e ct d ttl w =
      (case body_text res of
         None \<Rightarrow> (Some (Inl UnicodeDecodeError), w)
       | Some content \<Rightarrow>
           await_sleep E (JInt (1 + (max_ttl c - ttl) * 2))
             (record_bucket E e m (headers res) w)
             (send n E c m e ct d None (Some (ttl - 1)) None
                (slept (JInt (1 + (max_ttl c - ttl) * 2))
                   (record_bucket E e m (headers res) w))))"
  proof (cases "body_text res")
    case None
    then show ?thesis by (simp add: handle_undecodable)
  next
    case (Some x)
    then have "body_text res \<noteq> None" by simp
    from handle_5xx [OF this s] Some show ?thesis by simp
  qed
next
  assume "max_ttl c = 5 \<and> (\<forall>i rq. is_server_error (transport E i rq)) \<and>
    (\<forall>n\<in>{1, 3, 5, 7, 9}. asyncio_sleep E (JInt n) = Completed)"
  then have "max_ttl c = 5" and "\<forall>i rq. is_server_error (transport E i rq)"
    and "\<forall>n\<in>{1, 3, 5, 7, 9}. asyncio_sleep E (JInt n) = Completed" by simp_all
  then show "delays (trace (snd (send 5 E c m e ct d h None p w))) =
      delays (trace w) @ [JInt 1, JInt 3, JInt 5, JInt 7, JInt 9]"
    by (rule five_backoffs)
qed

theorem server_error_backoff_delay_witness:
  "delays (trace (snd (handle_response 0 (test_env (scripted [] (resp 503 None))) (test_client 5)
                   (resp 503 None) GET ''gateway'' ''application/json'' None 2 start))) =
     [JInt 7] \<and>
   delays (trace (snd (send 5 (test_env (scripted [] (resp 503 None))) (test_client 5) GET
                   ''gateway'' ''application/json'' None None None None start))) =
     [JInt 1, JInt 3, JInt 5, JInt 7, JInt 9]"
proof -
  let ?E = "test_env (scripted [] (resp 503 None))"
  have h1: "500 \<le> status (resp 503 None) \<and> status (resp 503 None) \<le> 599"
    by (simp add: resp_def)
  have h2: "max_ttl (test_client 5) = 5 \<and> (\<forall>i rq. is_server_error (transport ?E i rq)) \<and>
      (\<forall>n\<in>{1, 3, 5, 7, 9}. asyncio_sleep ?E (JInt n) = Completed)"
    by (simp add: fixture_defs is_server_error_def event_loop_small)
  have l: "asyncio_sleep ?E (JInt 7) = Completed"
    by (simp add: test_env_def event_loop_small)
  from server_error_backoff_delay [of "resp 503 None" 0 ?E "test_client 5" GET "''gateway''"
      "''application/json''" None 2 start None None] h1 h2 l
  show ?thesis
    by (simp add: send_no_fuel ttl_or_def test_client_def world_simps delays_append start_def
        resp_def await_sleep_completed)
qed

subsection \<open>The order of effects\<close>

text \<open>
  C7. The claim: on every response the bucket is recorded before the response is
  classified. The record is the second statement of \<^verbatim>\<open>__handle_response\<close>: the first
  reads the body for the log message, and on a response whose body cannot be decoded
  that raises, so the method is left with nothing recorded.
\<close>

theorem undecodable_body_is_not_recorded_counterexample:
  "handle_response 1 (test_env (scripted [] (garbled 500))) (test_client 5) (garbled 500) GET
     ''gateway'' ''application/json'' None 5 start =
     (Some (Inl UnicodeDecodeError), start) \<and>
   send 1 (test_env (scripted [] (garbled 500))) (test_client 5) GET ''gateway''
     ''application/json'' None None None None start =
     (Some (Inl UnicodeDecodeError),
      \<lparr>limiter = [],
       trace = [Wait ''gateway'' GET,
                Call (request_of (test_client 5) GET ''gateway'' ''application/json'' None
                        None None)],
       network = 1\<rparr>)"
  by (simp add: fixture_defs run_defs wait_gate_def issue_def)

text \<open>
  C7, amended. On every response whose body can be read as text (success, 4xx, 429 or
  5xx alike), the first call that \<^verbatim>\<open>__handle_response\<close> makes hands the route and the
  response headers to \<^verbatim>\<open>save_response_bucket\<close>, and every outcome (a value, an
  exception, or a sleep followed by a retry) is computed in the world in which the
  bucket has been recorded; hence each network call of \<^verbatim>\<open>__send\<close> that gets such a
  response is followed at once by that record. When reading the body raises, the
  exception leaves the method before the record.
\<close>

theorem bucket_recorded_first:
  "(body_text res = None \<longrightarrow>
      handle_response n E c res m e ct d ttl w = (Some (Inl UnicodeDecodeError), w)) \<and>
   (body_text res \<noteq> None \<longrightarrow>
      (\<exists>evs. trace (snd (handle_response n E c res m e ct d ttl w)) =
           trace w @ Save e m (headers res) # evs) \<and>
      ((\<exists>r. handle_response n E c res m e ct d ttl w =
              (Some r, record_bucket E e m (headers res) w)) \<or>
       (\<exists>t' dl. handle_response n E c res m e ct d ttl w =
              await_sleep E dl (record_bucket E e m (headers res) w)
                (send n E c m e ct d None t' None
                   (slept dl (record_bucket E e m (headers res) w)))))) \<and>
   (ttl_or t (max_ttl c) \<noteq> 0 \<and> body_text res \<noteq> None \<and>
    transport E (network w) (request_of c m e ct (serialize E d) h p) = Reply res \<longrightarrow>
      (\<exists>evs. trace (snd (send (Suc n) E c m e ct d h t p w)) =
           trace w @ Wait e m # Call (request_of c m e ct (serialize E d) h p) #
             Save e m (headers res) # evs))"
proof (intro conjI impI)
  assume "body_text res = None"
  then show "handle_response n E c res m e ct d ttl w = (Some (Inl UnicodeDecodeError), w)"
    by (rule handle_undecodable)
next
  assume "body_text res \<noteq> None"
  then show "\<exists>evs. trace (snd (handle_response n E c res m e ct d ttl w)) =
           trace w @ Save e m (headers res) # evs"
    by (rule handle_trace)
next
  assume "body_text res \<noteq> None"
  then show "(\<exists>r. handle_response n E c res m e ct d ttl w =
              (Some r, record_bucket E e m (headers res) w)) \<or>
       (\<exists>t' dl. handle_response n E c res m e ct d ttl w =
              await_sleep E dl (record_bucket E e m (headers res) w)
                (send n E c m e ct d None t' None
                   (slept dl (record_bucket E e m (headers res) w))))"
    by (rule handle_shape)
next
  assume "ttl_or t (max_ttl c) \<noteq> 0 \<and> body_text res \<noteq> None \<and>
    transport E (network w) (request_of c m e ct (serialize E d) h p) = Reply res"
  then have "ttl_or t (max_ttl c) \<noteq> 0"
    and "transport E (network w) (request_of c m e ct (serialize E d) h p) = Reply res"
    and "body_text res \<noteq> None" by simp_all
  then show "\<exists>evs. trace (snd (send (Suc n) E c m e ct d h t p w)) =
           trace w @ Wait e m # Call (request_of c m e ct (serialize E d) h p) #
             Save e m (headers res) # evs"
    by (rule send_reply_recorded)
qed

theorem bucket_recorded_first_witness:
  "handle_response 0 (test_env (scripted [] (resp 404 None))) (test_client 5)
       (resp 404 None) GET ''users/1'' ''application/json'' None 5 start =
     (Some (Inl (HTTPError NotFoundError ''reason'')),
      \<lparr>limiter = [''users/1''], trace = [Save ''users/1'' GET Map.empty], network = 0\<rparr>) \<and>
   (\<exists>evs. trace (snd (send 1 (test_env (scripted [] (resp 404 None))) (test_client 5) GET
                ''users/1'' ''application/json'' None None None None start)) =
          trace start @ Wait ''users/1'' GET #
            Call (request_of (test_client 5) GET ''users/1'' ''application/json'' None None None) #
            Save ''users/1'' GET (headers (resp 404 None)) # evs)"
proof -
  let ?E = "test_env (scripted [] (resp 404 None))"
  have h: "ttl_or None (max_ttl (test_client 5)) \<noteq> 0 \<and> body_text (resp 404 None) \<noteq> None \<and>
      transport ?E (network start)
        (request_of (test_client 5) GET ''users/1'' ''application/json'' (serialize ?E None)
           None None) = Reply (resp 404 None)"
    by (simp add: fixture_defs ttl_or_def)
  have s: "serialize ?E None = None" by (simp add: serialize_def)
  have r: "handle_response 0 ?E (test_client 5) (resp 404 None) GET ''users/1''
       ''application/json'' None 5 start =
     (Some (Inl (HTTPError NotFoundError ''reason'')),
      \<lparr>limiter = [''users/1''], trace = [Save ''users/1'' GET Map.empty], network = 0\<rparr>)"
    by (simp add: fixture_defs run_defs record_bucket_def)
  from bucket_recorded_first [of "resp 404 None" 0 ?E "test_client 5" GET "''users/1''"
      "''application/json''" None 5 start None None None] h s r
  show ?thesis by simp
qed

subsection \<open>The request that is sent\<close>

lemma merged_headers_at:
  "merged_headers ct h k =
     (case h of
        None \<Rightarrow> (if k = ''Content-Type'' then Some ct else None)
      | Some hs \<Rightarrow>
          (case hs k of
             Some (Some v) \<Rightarrow> Some v
           | _ \<Rightarrow> (if k = ''Content-Type'' then Some ct else None)))"
  by (simp add: merged_headers_def remove_none_def map_add_def split: option.split)

lemma retry_request:
  "request_of c m e ct (serialize E (serialize E d)) None None =
     \<lparr>req_method = m, req_url = url c @ ''/'' @ e, req_data = serialize E d,
      req_headers = [''Content-Type'' \<mapsto> ct], req_params = None\<rparr>"
  by (simp add: request_of_def merged_headers_def remove_none_def serialize_idem)

text \<open>
  C6. The claim: a header supplied by the caller never replaces the content type set
  by the client. A caller of \<^verbatim>\<open>post\<close> who passes a \<^verbatim>\<open>Content-Type\<close> header has it
  sent in place of the \<^verbatim>\<open>content_type\<close> argument.
\<close>

theorem content_type_kept_counterexample:
  "map content_type_sent
     (calls (trace (snd (post 1 (test_env (scripted [] (resp 200 (Some JNull)))) (test_client 5)
        ''channels/1/messages'' None ''application/json'' (Some plain_text) start)))) =
   [Some ''text/plain'']"
  by (simp add: fixture_defs run_defs post_def content_type_sent_def request_of_def
      merged_headers_def remove_none_def plain_text_def)

text \<open>
  C6, amended. The headers of the network call are the content-type header overlaid
  with the caller's headers whose value is not \<^verbatim>\<open>None\<close>: a \<^verbatim>\<open>Content-Type\<close> supplied
  by the caller replaces the client's content type, which is sent only when the caller
  supplies none; every other header is the caller's.
\<close>

theorem caller_headers_override_content_type:
  assumes "ttl_or t (max_ttl c) \<noteq> 0"
  shows "\<exists>rq evs.
           trace (snd (send (Suc n) E c m e ct d h t p w)) = trace w @ Wait e m # Call rq # evs \<and>
           (\<forall>k. req_headers rq k =
              (case h of
                 None \<Rightarrow> (if k = ''Content-Type'' then Some ct else None)
               | Some hs \<Rightarrow>
                   (case hs k of
                      Some (Some v) \<Rightarrow> Some v
                    | _ \<Rightarrow> (if k = ''Content-Type'' then Some ct else None))))"
proof -
  from send_first_call [OF assms, of n E m e ct d h p w]
  obtain evs where
    "trace (snd (send (Suc n) E c m e ct d h t p w)) =
     trace w @ Wait e m # Call (request_of c m e ct (serialize E d) h p) # evs" by blast
  moreover have "\<forall>k. req_headers (request_of c m e ct (serialize E d) h p) k =
      (case h of
         None \<Rightarrow> (if k = ''Content-Type'' then Some ct else None)
       | Some hs \<Rightarrow>
           (case hs k of
              Some (Some v) \<Rightarrow> Some v
            | _ \<Rightarrow> (if k = ''Content-Type'' then Some ct else None)))"
    using merged_headers_at [of ct h] by (simp add: request_of_def)
  ultimately show ?thesis by blast
qed

theorem caller_headers_override_content_type_witness:
  "ttl_or None (max_ttl (test_client 5)) \<noteq> 0 \<and>
   (\<exists>rq evs.
      trace (snd (send 1 (test_env (scripted [] (resp 200 (Some JNull)))) (test_client 5) DELETE
                    ''channels/1'' ''application/json'' None (Some audit_reason) None None
                    start)) =
        trace start @ Wait ''channels/1'' DELETE # Call rq # evs \<and>
      req_headers rq ''Content-Type'' = Some ''application/json'' \<and>
      req_headers rq ''X-Audit-Log-Reason'' = Some ''cleanup'')"
proof -
  have h: "ttl_or None (max_ttl (test_client 5)) \<noteq> 0"
    by (simp add: ttl_or_def test_client_def)
  from caller_headers_override_content_type [OF h, of 0
      "test_env (scripted [] (resp 200 (Some JNull)))" DELETE "''channels/1''"
      "''application/json''" None "Some audit_reason" None start]
  obtain rq evs where
    t: "trace (snd (send 1 (test_env (scripted [] (resp 200 (Some JNull)))) (test_client 5) DELETE
                    ''channels/1'' ''application/json'' None (Some audit_reason) None None
                    start)) =
        trace start @ Wait ''channels/1'' DELETE # Call rq # evs"
    and k: "\<forall>k. req_headers rq k =
              (case audit_reason k of
                 Some (Some v) \<Rightarrow> Some v
               | _ \<Rightarrow> (if k = ''Content-Type'' then Some ''application/json'' else None))"
    by auto
  from k have "req_headers rq ''Content-Type'' = Some ''application/json''"
    and "req_headers rq ''X-Audit-Log-Reason'' = Some ''cleanup''"
    by (simp_all add: audit_reason_def)
  with t h show ?thesis by blast
qed

text \<open>
  C9. Every internal retry, that is, the send after a 429 and the send after a status
  that has no entry in the table (the 5xx branch), issues a request with the same
  method, url, content type and serialised data as the first one, but with no headers
  beyond the content type and with no query parameters: the headers and parameters of
  the caller are not passed on. A retry is made when the body of the reply can be read,
  its status is not below 400, and either the status is not in the table and the
  backoff sleep completes, or the status is 429, the body is a JSON object and the
  sleep on its retry-after completes.
\<close>

theorem retry_drops_headers_and_params:
  assumes "max_ttl c \<noteq> 0"
    and "transport E (network w) (request_of c m e ct (serialize E d) h p) = Reply res"
    and "body_text res \<noteq> None" and "\<not> status res < 400"
    and "(http_exceptions (status res) = None \<and>
          asyncio_sleep E (JInt (1 + (max_ttl c - ttl_or t (max_ttl c)) * 2)) = Completed) \<or>
         (status res = 429 \<and>
          (\<exists>b. body_json res = Some (JDict b) \<and> asyncio_sleep E (retry_after b) = Completed))"
  shows "\<exists>evs. calls (trace (snd (send (Suc (Suc n)) E c m e ct d h t p w))) =
           calls (trace w) @ request_of c m e ct (serialize E d) h p #
             \<lparr>req_method = m, req_url = url c @ ''/'' @ e, req_data = serialize E d,
              req_headers = [''Content-Type'' \<mapsto> ct], req_params = None\<rparr> # evs"
proof -
  let ?rq = "request_of c m e ct (serialize E d) h p"
  let ?w2 = "issue ?rq (wait_gate E e m w)"
  let ?w3 = "record_bucket E e m (headers res) ?w2"
  have nz: "\<And>t. ttl_or t (max_ttl c) \<noteq> 0" using assms(1) by (rule ttl_or_nonzero)
  have "\<exists>t' w'. send (Suc (Suc n)) E c m e ct d h t p w =
                  send (Suc n) E c m e ct (serialize E d) None t' None w' \<and>
                calls (trace w') = calls (trace w) @ [?rq]"
    using assms(5)
  proof
    assume a: "http_exceptions (status res) = None \<and>
          asyncio_sleep E (JInt (1 + (max_ttl c - ttl_or t (max_ttl c)) * 2)) = Completed"
    let ?dl = "JInt (1 + (max_ttl c - ttl_or t (max_ttl c)) * 2)"
    from a assms(2,3,4) have "send (Suc (Suc n)) E c m e ct d h t p w =
        send (Suc n) E c m e ct (serialize E d) None (Some (ttl_or t (max_ttl c) - 1)) None
          (slept ?dl ?w3)"
      using nz by (simp add: send_step handle_unmapped await_sleep_completed)
    moreover have "calls (trace (slept ?dl ?w3)) = calls (trace w) @ [?rq]"
      by (simp add: world_simps calls_append)
    ultimately show ?thesis by blast
  next
    assume a: "status res = 429 \<and>
          (\<exists>b. body_json res = Some (JDict b) \<and> asyncio_sleep E (retry_after b) = Completed)"
    then obtain b where s: "status res = 429" and j: "body_json res = Some (JDict b)"
      and l: "asyncio_sleep E (retry_after b) = Completed" by blast
    from s j l assms(2,3) have "send (Suc (Suc n)) E c m e ct d h t p w =
        send (Suc n) E c m e ct (serialize E d) None None None (slept (retry_after b) ?w3)"
      using nz by (simp add: send_step handle_429 await_sleep_completed)
    moreover have "calls (trace (slept (retry_after b) ?w3)) = calls (trace w) @ [?rq]"
      by (simp add: world_simps calls_append)
    ultimately show ?thesis by blast
  qed
  then obtain t' w' where
    s: "send (Suc (Suc n)) E c m e ct d h t p w =
        send (Suc n) E c m e ct (serialize E d) None t' None w'"
    and cw: "calls (trace w') = calls (trace w) @ [?rq]" by blast
  from send_first_call [of t' c n E m e ct "serialize E d" None None w'] nz
  obtain evs where
    "trace (snd (send (Suc n) E c m e ct (serialize E d) None t' None w')) =
     trace w' @ Wait e m #
       Call (request_of c m e ct (serialize E (serialize E d)) None None) # evs" by blast
  with s cw have "calls (trace (snd (send (Suc (Suc n)) E c m e ct d h t p w))) =
      calls (trace w) @ ?rq #
        request_of c m e ct (serialize E (serialize E d)) None None # calls evs"
    by (simp add: calls_append)
  then show ?thesis by (simp add: retry_request)
qed

theorem retry_drops_headers_and_params_witness:
  "max_ttl (test_client 5) \<noteq> 0 \<and>
   calls (trace (snd (get 2 (test_env (scripted [resp 502 None] (resp 200 (Some JNull))))
                        (test_client 5) ''guilds/1/members'' (Some members_page) start))) =
     [\<lparr>req_method = GET, req_url = ''https://discord.com/api/v9/guilds/1/members'',
       req_data = None, req_headers = [''Content-Type'' \<mapsto> ''application/json''],
       req_params = Some [''limit'' \<mapsto> ''10'']\<rparr>,
      \<lparr>req_method = GET, req_url = ''https://discord.com/api/v9/guilds/1/members'',
       req_data = None, req_headers = [''Content-Type'' \<mapsto> ''application/json''],
       req_params = None\<rparr>]"
proof -
  let ?E = "test_env (scripted [resp 502 None] (resp 200 (Some JNull)))"
  let ?rq = "request_of (test_client 5) GET ''guilds/1/members'' ''application/json''
               (serialize ?E None) None (Some members_page)"
  have h1: "max_ttl (test_client 5) \<noteq> 0" by (simp add: test_client_def)
  have h2: "transport ?E (network start) ?rq = Reply (resp 502 None)"
    by (simp add: fixture_defs)
  have h3: "body_text (resp 502 None) \<noteq> None" and h4: "\<not> status (resp 502 None) < 400"
    by (simp_all add: resp_def)
  have h5: "(http_exceptions (status (resp 502 None)) = None \<and>
       asyncio_sleep ?E
         (JInt (1 + (max_ttl (test_client 5) - ttl_or None (max_ttl (test_client 5))) * 2)) =
       Completed) \<or>
      (status (resp 502 None) = 429 \<and>
       (\<exists>b. body_json (resp 502 None) = Some (JDict b) \<and>
            asyncio_sleep ?E (retry_after b) = Completed))"
    by (simp add: fixture_defs http_exceptions_def ttl_or_def event_loop_small)
  have r: "calls (trace (snd (get 2 ?E (test_client 5) ''guilds/1/members''
             (Some members_page) start))) =
     [\<lparr>req_method = GET, req_url = ''https://discord.com/api/v9/guilds/1/members'',
       req_data = None, req_headers = [''Content-Type'' \<mapsto> ''application/json''],
       req_params = Some [''limit'' \<mapsto> ''10'']\<rparr>,
      \<lparr>req_method = GET, req_url = ''https://discord.com/api/v9/guilds/1/members'',
       req_data = None, req_headers = [''Content-Type'' \<mapsto> ''application/json''],
       req_params = None\<rparr>]"
    by (simp add: fixture_defs run_defs get_def request_of_def merged_headers_def
        remove_none_def members_page_def eval_nat_numeral fun_eq_iff)
  from retry_drops_headers_and_params [OF h1 h2 h3 h4 h5, of 0] h1 r
  show ?thesis by simp
qed

subsection \<open>A ceiling of zero\<close>

text \<open>
  C10. A client built with a ceiling of 0 raises the retries-exhausted \<open>ServerError\<close>
  on every call of \<^verbatim>\<open>__send\<close> that a verb makes (\<^verbatim>\<open>_ttl\<close> left out), and so on every
  verb, whatever fuel it has: nothing is added to the trace (the gate is not consulted,
  no request is issued) and the rate limiter is as it was.
\<close>

theorem zero_ceiling_raises_at_once:
  assumes "max_ttl c = 0"
  shows "send n E c m e ct d h None p w =
           (Some (Inl (HTTPError ServerError
              (''Maximum amount of retries for `'' @ e @ ''`.''))), w) \<and>
         fst (delete n E c e h w) = Some (Inl (retries_exhausted e)) \<and>
         fst (get n E c e p w) = Some (Inl (retries_exhausted e)) \<and>
         fst (head n E c e w) = Some (Inl (retries_exhausted e)) \<and>
         fst (options n E c e w) = Some (Inl (retries_exhausted e)) \<and>
         fst (patch n E c e dd ct h w) = Some (Inl (retries_exhausted e)) \<and>
         fst (post n E c e dd ct h w) = Some (Inl (retries_exhausted e)) \<and>
         fst (put n E c e dd ct h w) = Some (Inl (retries_exhausted e)) \<and>
         snd (delete n E c e h w) = w \<and> snd (get n E c e p w) = w \<and>
         snd (head n E c e w) = w \<and> snd (options n E c e w) = w \<and>
         snd (patch n E c e dd ct h w) = w \<and> snd (post n E c e dd ct h w) = w \<and>
         snd (put n E c e dd ct h w) = w"
proof -
  have "ttl_or None (max_ttl c) = 0" using assms by (simp add: ttl_or_def)
  then have "\<And>m ct d h p. send n E c m e ct d h None p w =
      (Some (Inl (retries_exhausted e)), w)"
    by (rule send_exhausted)
  then show ?thesis
    by (simp add: retries_exhausted_def delete_def get_def head_def options_def patch_def
        post_def put_def)
qed

theorem zero_ceiling_raises_at_once_witness:
  "max_ttl (test_client 0) = 0 \<and>
   get 7 (test_env (scripted [] (resp 200 (Some JNull)))) (test_client 0) ''gateway'' None start =
     (Some (Inl (HTTPError ServerError ''Maximum amount of retries for `gateway`.'')), start)"
proof -
  have h: "max_ttl (test_client 0) = 0" by (simp add: test_client_def)
  from zero_ceiling_raises_at_once [OF h, of 7 "test_env (scripted [] (resp 200 (Some JNull)))"
      GET "''gateway''" "''application/json''" None None None start]
  show ?thesis using h by (simp add: get_def)
qed

end
